theory Spec2Isabelle
  imports Main
begin

section \<open>The TestCafe builder of \<^verbatim>\<open>packages/builders/src/test-cafe/test-cafe.builder.ts\<close>\<close>

text \<open>
  The builder starts the dev server named by \<^verbatim>\<open>devServerTarget\<close>, derives the
  base URL of that server from its validated options, and then drives the TestCafe
  runner. Everything it touches besides its own two fields is an external
  collaborator (the architect, the TestCafe session, \<^verbatim>\<open>tree-kill\<close>, the logger,
  Node's \<^verbatim>\<open>url\<close> module). The collaborators' answers are the fields of a record
  \<open>world\<close>; every call the builder makes to one of them is recorded, in order, in a
  list of \<open>call\<close>s.
\<close>

subsection \<open>JavaScript values and strings\<close>

text \<open>
  The values the kill callback inspects (\<^verbatim>\<open>error[0]\<close>, \<^verbatim>\<open>error[2]\<close>,
  \<^verbatim>\<open>error.message\<close>). Numbers are integers here; \<open>JObject\<close> is any object.
\<close>

datatype js_value =
    JUndefined
  | JNull
  | JBool bool
  | JNum int
  | JStr string
  | JObject

text \<open>JavaScript's \<^verbatim>\<open>ToBoolean\<close>, the test of \<^verbatim>\<open>if (v)\<close> and \<^verbatim>\<open>a && b\<close>.\<close>

fun truthy :: "js_value \<Rightarrow> bool" where
  "truthy JUndefined = False"
| "truthy JNull = False"
| "truthy (JBool b) = b"
| "truthy (JNum n) = (n \<noteq> 0)"
| "truthy (JStr s) = (s \<noteq> [])"
| "truthy JObject = True"

text \<open>An optional string (\<^verbatim>\<open>string | undefined\<close>) is truthy when it is a non-empty string.\<close>

fun truthy_str :: "string option \<Rightarrow> bool" where
  "truthy_str None = False"
| "truthy_str (Some s) = (s \<noteq> [])"

text \<open>
  \<^verbatim>\<open>s.split(sep)\<close> for a one-character separator: the pieces between the
  separators, in order; a string without the separator (the empty string too) gives
  the one-element array holding it.
\<close>

fun split :: "char \<Rightarrow> string \<Rightarrow> string list" where
  "split sep [] = [[]]"
| "split sep (x # xs) =
     (if x = sep then [] # split sep xs
      else (case split sep xs of
              [] \<Rightarrow> [[x]]
            | w # ws \<Rightarrow> (x # w) # ws))"

text \<open>\<^verbatim>\<open>xs[i]\<close>: \<^verbatim>\<open>undefined\<close> past the end of the array.\<close>

fun index :: "'a list \<Rightarrow> nat \<Rightarrow> 'a option" where
  "index [] i = None"
| "index (x # xs) 0 = Some x"
| "index (x # xs) (Suc i) = index xs i"

subsection \<open>Target specifications\<close>

text \<open>
  The object literal of lines 129 to 135: the three names come from destructuring
  \<^verbatim>\<open>devServerTarget.split(':')\<close>, so a missing segment is \<^verbatim>\<open>undefined\<close>; the
  overrides hold the one key \<^verbatim>\<open>watch\<close>.
\<close>

record overrides =
  ov_watch :: bool

record target_spec =
  project :: "string option"
  target :: "string option"
  configuration :: "string option"
  overrides :: overrides

definition targetSpec :: "string \<Rightarrow> bool \<Rightarrow> target_spec" where
  "targetSpec devServerTarget isWatching =
     (let parts = split CHR '':'' devServerTarget
      in \<lparr>project = index parts 0,
          target = index parts 1,
          configuration = index parts 2,
          overrides = \<lparr>ov_watch = isWatching\<rparr>\<rparr>)"

subsection \<open>Errors, options and events\<close>

text \<open>
  What a call can throw or a promise can reject with. \<open>TypeError\<close> is the read of a
  property of \<^verbatim>\<open>null\<close>; \<open>Failure\<close> is whatever a collaborator raises, with its
  message; \<open>NewError e\<close> is the \<^verbatim>\<open>new Error(error)\<close> of \<^verbatim>\<open>run\<close>'s
  \<^verbatim>\<open>catchError\<close>. \<open>Unmodelled\<close> is not an error of the program: it marks the URL
  strings on which this development does not describe Node's parser (see
  \<open>url_parse\<close>).
\<close>

datatype error =
    TypeError
  | Failure string
  | NewError error
  | Unmodelled

text \<open>
  \<^verbatim>\<open>TestCafeBuilderOptions\<close>; both keys are optional. (The fields carry a prefix
  because the methods have parameters of the same names.)
\<close>

record test_cafe_builder_options =
  options_browsers :: "string list option"
  options_devServerTarget :: "string option"

text \<open>The keys of the dev server's options the builder reads.\<close>

record dev_server_options =
  host :: string
  port :: int
  ssl :: bool
  publicHost :: "string option"
  watch :: bool

record 'o builder_configuration =
  root :: string
  builder :: string
  options :: 'o

datatype builder_description = BuilderDescription string

record build_event =
  success :: bool

text \<open>
  An observable is modelled by what one subscription sees: the values delivered, in
  order, and how the stream ends (it completes, it fails, or it stays open without a
  further value, as a dev server does after its build).
\<close>

datatype ending = Completes | Errors error | StaysOpen

type_synonym 'a observable = "'a list \<times> ending"

subsection \<open>Node's \<^verbatim>\<open>url\<close> module\<close>

text \<open>
  \<^verbatim>\<open>url.parse\<close> and \<^verbatim>\<open>url.format\<close> are the legacy URL functions of Node.js; the
  definitions below follow \<^verbatim>\<open>lib/url.js\<close> of Node 10. A URL object carries the
  fields that \<^verbatim>\<open>format\<close> reads. The object literal of lines 155 to 159 is such an
  object with only protocol, hostname and port set. (\<^verbatim>\<open>auth\<close> is left out: the
  literal has none and no string in the scope of \<open>url_parse\<close> has one. \<^verbatim>\<open>query\<close> is
  left out: \<^verbatim>\<open>format\<close> reads it only when it is an object, and \<^verbatim>\<open>parse\<close> without
  its second argument stores a string.)
\<close>

record url_object =
  url_protocol :: "string option"
  url_slashes :: bool
  url_host :: "string option"
  url_port :: "string option"
  url_hostname :: "string option"
  url_hash :: "string option"
  url_search :: "string option"
  url_pathname :: "string option"

definition empty_url :: url_object where
  "empty_url =
     \<lparr>url_protocol = None, url_slashes = False, url_host = None, url_port = None,
      url_hostname = None, url_hash = None, url_search = None, url_pathname = None\<rparr>"

text \<open>\<^verbatim>\<open>v || ''\<close> for an optional string.\<close>

fun or_empty :: "string option \<Rightarrow> string" where
  "or_empty None = []"
| "or_empty (Some s) = s"

definition slashedProtocol :: "string \<Rightarrow> bool" where
  "slashedProtocol p =
     (p \<in> set [''http'', ''http:'', ''https'', ''https:'', ''ftp'', ''ftp:'',
                ''gopher'', ''gopher:'', ''file'', ''file:''])"

definition hostlessProtocol :: "string \<Rightarrow> bool" where
  "hostlessProtocol p = (p \<in> set [''javascript'', ''javascript:''])"

definition unsafeProtocol :: "string \<Rightarrow> bool" where
  "unsafeProtocol p = (p \<in> set [''javascript'', ''javascript:''])"

text \<open>Replace every occurrence of one character by a string.\<close>

definition replace_char :: "char \<Rightarrow> string \<Rightarrow> string \<Rightarrow> string" where
  "replace_char c r s = concat (map (\<lambda>x. if x = c then r else [x]) s)"

text \<open>
  \<^verbatim>\<open>Url.prototype.format\<close>. The local \<^verbatim>\<open>host\<close> starts as \<^verbatim>\<open>false\<close> (\<open>None\<close>
  here) and is a string once \<^verbatim>\<open>this.host\<close> or \<^verbatim>\<open>this.hostname\<close> is truthy. No path
  is added when the object has none.
\<close>

definition url_format :: "url_object \<Rightarrow> string" where
  "url_format u =
     (let protocol0 = or_empty (url_protocol u);
          host0 =
            (if truthy_str (url_host u) then url_host u
             else if truthy_str (url_hostname u) then
               Some ((if CHR '':'' \<notin> set (or_empty (url_hostname u))
                      then or_empty (url_hostname u)
                      else ''['' @ or_empty (url_hostname u) @ '']'')
                     @ (if truthy_str (url_port u) then '':'' @ or_empty (url_port u) else []))
             else None);
          protocol =
            (if protocol0 \<noteq> [] \<and> last protocol0 \<noteq> CHR '':'' then protocol0 @ '':''
             else protocol0);
          pathname0 =
            replace_char CHR ''?'' ''%3F''
              (replace_char CHR ''#'' ''%23'' (or_empty (url_pathname u)));
          slashed =
            (url_slashes u \<or> ((protocol = [] \<or> slashedProtocol protocol) \<and> host0 \<noteq> None));
          host1 = (if slashed then ''//'' @ or_empty host0 else or_empty host0);
          pathname =
            (if slashed \<and> pathname0 \<noteq> [] \<and> hd pathname0 \<noteq> CHR ''/'' then ''/'' @ pathname0
             else pathname0);
          search0 = replace_char CHR ''#'' ''%23'' (or_empty (url_search u));
          hash0 = or_empty (url_hash u);
          hash = (if hash0 \<noteq> [] \<and> hd hash0 \<noteq> CHR ''#'' then ''#'' @ hash0 else hash0);
          search =
            (if search0 \<noteq> [] \<and> hd search0 \<noteq> CHR ''?'' then ''?'' @ search0 else search0)
      in protocol @ host1 @ pathname @ search @ hash)"

text \<open>Character classes of the patterns in \<^verbatim>\<open>lib/url.js\<close> and of the builder's own test.\<close>

definition is_lower :: "char \<Rightarrow> bool" where
  "is_lower c = (c \<in> set ''abcdefghijklmnopqrstuvwxyz'')"

definition is_upper :: "char \<Rightarrow> bool" where
  "is_upper c = (c \<in> set ''ABCDEFGHIJKLMNOPQRSTUVWXYZ'')"

definition is_digit :: "char \<Rightarrow> bool" where
  "is_digit c = (c \<in> set ''0123456789'')"

text \<open>\<^verbatim>\<open>String.prototype.toLowerCase\<close> on ASCII text.\<close>

definition toLowerCase :: "string \<Rightarrow> string" where
  "toLowerCase s =
     map (\<lambda>c. case map_of (zip ''ABCDEFGHIJKLMNOPQRSTUVWXYZ'' ''abcdefghijklmnopqrstuvwxyz'') c of
                 None \<Rightarrow> c
               | Some l \<Rightarrow> l) s"

text \<open>
  The white space \<^verbatim>\<open>parse\<close> trims (space, tab, CR, LF, FF) and the ASCII part of the
  regular expression class \<^verbatim>\<open>\s\<close>, which has the vertical tab as well.
\<close>

definition is_ws :: "char \<Rightarrow> bool" where
  "is_ws c = (c \<in> set [CHR '' '', CHR 0x09, CHR 0x0D, CHR 0x0A, CHR 0x0C])"

definition is_space :: "char \<Rightarrow> bool" where
  "is_space c = (is_ws c \<or> c = CHR 0x0B)"

definition trim :: "string \<Rightarrow> string" where
  "trim s = rev (dropWhile is_ws (rev (dropWhile is_ws s)))"

text \<open>Backslashes become slashes up to the first \<^verbatim>\<open>?\<close> or \<^verbatim>\<open>#\<close>.\<close>

fun convert_backslashes :: "string \<Rightarrow> string" where
  "convert_backslashes [] = []"
| "convert_backslashes (c # cs) =
     (if c = CHR ''?'' \<or> c = CHR ''#'' then c # cs
      else (if c = CHR 0x5C then CHR ''/'' else c) # convert_backslashes cs)"

text \<open>
  \<^verbatim>\<open>simplePathPattern = /^(\/\/?(?!\/)[^\?\s]*)(\?[^\s]*)?$/\<close>: one or two slashes not
  followed by a third, then no white space; the path name ends at the first \<^verbatim>\<open>?\<close>.
\<close>

definition simplePath :: "string \<Rightarrow> (string \<times> string) option" where
  "simplePath rest =
     (if take 1 rest = ''/'' \<and> take 3 rest \<noteq> ''///'' \<and> \<not> list_ex is_space rest
      then Some (takeWhile (\<lambda>c. c \<noteq> CHR ''?'') rest, dropWhile (\<lambda>c. c \<noteq> CHR ''?'') rest)
      else None)"

text \<open>\<^verbatim>\<open>protocolPattern = /^([a-z0-9.+-]+:)/i\<close>; the match includes the colon.\<close>

definition is_protocol_char :: "char \<Rightarrow> bool" where
  "is_protocol_char c = (is_lower c \<or> is_upper c \<or> is_digit c \<or> c \<in> set ''.+-'')"

definition protocolPattern :: "string \<Rightarrow> string option" where
  "protocolPattern rest =
     (if takeWhile is_protocol_char rest \<noteq> [] \<and> take 1 (dropWhile is_protocol_char rest) = '':''
      then Some (takeWhile is_protocol_char rest @ '':'')
      else None)"

text \<open>
  The characters that end the host: those never allowed in a host name, and the
  first \<^verbatim>\<open>#\<close>, \<^verbatim>\<open>/\<close> or \<^verbatim>\<open>?\<close>.
\<close>

definition ends_host :: "char \<Rightarrow> bool" where
  "ends_host c =
     (c \<in> set [CHR 0x09, CHR 0x0A, CHR 0x0D, CHR '' '', CHR 0x22, CHR ''%'', CHR 0x27,
                CHR '';'', CHR ''<'', CHR ''>'', CHR 0x5C, CHR ''^'', CHR 0x60, CHR ''{'',
                CHR ''|'', CHR ''}'', CHR ''#'', CHR ''/'', CHR ''?''])"

text \<open>
  \<^verbatim>\<open>parseHost\<close> with \<^verbatim>\<open>portPattern = /:[0-9]*$/\<close>: a trailing colon with digits is
  cut off the host; the digits, when there are any, are the port.
\<close>

definition parseHost :: "string \<Rightarrow> string \<times> string option" where
  "parseHost h =
     (let digits = rev (takeWhile is_digit (rev h));
          front = take (length h - length digits) h
      in if front \<noteq> [] \<and> last front = CHR '':''
         then (butlast front, if digits = [] then None else Some digits)
         else (h, None))"

definition is_hostname_char :: "char \<Rightarrow> bool" where
  "is_hostname_char c = (is_lower c \<or> is_upper c \<or> is_digit c \<or> c \<in> set ''.-+_'')"

text \<open>\<^verbatim>\<open>autoEscapeStr\<close>: the characters always percent-escaped after the host.\<close>

definition autoEscapeStr :: "string \<Rightarrow> string" where
  "autoEscapeStr s =
     concat (map (\<lambda>c.
       case map_of
         [(CHR 0x09, ''%09''), (CHR 0x0A, ''%0A''), (CHR 0x0D, ''%0D''), (CHR '' '', ''%20''),
          (CHR 0x22, ''%22''), (CHR 0x27, ''%27''), (CHR ''<'', ''%3C''), (CHR ''>'', ''%3E''),
          (CHR 0x5C, ''%5C''), (CHR ''^'', ''%5E''), (CHR 0x60, ''%60''), (CHR ''{'', ''%7B''),
          (CHR ''|'', ''%7C''), (CHR ''}'', ''%7D'')] c of
         None \<Rightarrow> [c]
       | Some e \<Rightarrow> e) s)"

text \<open>\<^verbatim>\<open>s || null\<close>: an empty piece is no field.\<close>

definition nonempty :: "string \<Rightarrow> string option" where
  "nonempty s = (if s = [] then None else Some s)"

text \<open>
  The host section of \<^verbatim>\<open>parse\<close>, entered when the URL has a host: the text up to the
  first host-ending character is split into host name and port; a host name that is
  not bracketed (IPv6) is cut at its first invalid character, the remainder going to
  the path behind a slash; host names are lower-cased, and emptied beyond 255
  characters. Gives host, port, host name and the rest of the URL.
\<close>

definition parse_host_section :: "string \<Rightarrow> string \<times> string option \<times> string \<times> string" where
  "parse_host_section rest =
     (let (hostname0, portDigits) = parseHost (takeWhile (\<lambda>c. \<not> ends_host c) rest);
          rest1 = dropWhile (\<lambda>c. \<not> ends_host c) rest;
          ipv6Hostname = (take 1 hostname0 = ''['' \<and> last hostname0 = CHR '']'');
          invalid = dropWhile is_hostname_char hostname0;
          hostname1 =
            (if \<not> ipv6Hostname \<and> invalid \<noteq> [] then takeWhile is_hostname_char hostname0
             else hostname0);
          rest2 = (if \<not> ipv6Hostname \<and> invalid \<noteq> [] then ''/'' @ invalid @ rest1 else rest1);
          hostname2 = (if length hostname1 > 255 then [] else toLowerCase hostname1);
          h = hostname2 @ (case portDigits of None \<Rightarrow> [] | Some p \<Rightarrow> '':'' @ p)
      in if ipv6Hostname
         then (h, portDigits, butlast (tl hostname2),
               if take 1 rest2 = ''/'' then rest2 else ''/'' @ rest2)
         else (h, portDigits, hostname2, rest2))"

text \<open>
  \<^verbatim>\<open>Url.prototype.parse(url)\<close>, called with one argument. The protocol is stored in
  lower case, but the tables \<^verbatim>\<open>hostlessProtocol\<close> and \<^verbatim>\<open>slashedProtocol\<close> are
  consulted with the protocol as written when the host is looked for. Without a
  protocol no host is looked for (\<^verbatim>\<open>hostPattern\<close>, the other way to a host, needs
  an \<^verbatim>\<open>@\<close>). A URL of a slashed protocol with a host name and no path gets the
  path \<^verbatim>\<open>/\<close>.
\<close>

definition parse :: "string \<Rightarrow> url_object" where
  "parse url =
     (let rest0 = convert_backslashes (trim url)
      in case (if CHR ''#'' \<in> set url then None else simplePath rest0) of
           Some (p, q) \<Rightarrow> empty_url\<lparr>url_pathname := Some p, url_search := nonempty q\<rparr>
         | None \<Rightarrow>
            (let proto = protocolPattern rest0;
                 lowerProto = map_option toLowerCase proto;
                 rest1 = drop (length (or_empty proto)) rest0;
                 hostless = (case proto of None \<Rightarrow> False | Some p \<Rightarrow> hostlessProtocol p);
                 slashes = (proto \<noteq> None \<and> take 2 rest1 = ''//'');
                 rest2 = (if slashes \<and> \<not> hostless then drop 2 rest1 else rest1);
                 has_host =
                   (\<not> hostless \<and>
                    (slashes \<or> (case proto of None \<Rightarrow> False | Some p \<Rightarrow> \<not> slashedProtocol p)));
                 (h, portDigits, hostname, rest3) =
                   (if has_host then parse_host_section rest2 else ([], None, [], rest2));
                 rest4 =
                   (if (case lowerProto of None \<Rightarrow> False | Some p \<Rightarrow> unsafeProtocol p)
                    then rest3 else autoEscapeStr rest3);
                 before_hash = takeWhile (\<lambda>c. c \<noteq> CHR ''#'') rest4;
                 pathname = nonempty (takeWhile (\<lambda>c. c \<noteq> CHR ''?'') before_hash)
             in \<lparr>url_protocol = lowerProto,
                 url_slashes = (slashes \<and> \<not> hostless),
                 url_host = (if has_host then Some h else None),
                 url_port = portDigits,
                 url_hostname = (if has_host then Some hostname else None),
                 url_hash = nonempty (dropWhile (\<lambda>c. c \<noteq> CHR ''#'') rest4),
                 url_search = nonempty (dropWhile (\<lambda>c. c \<noteq> CHR ''?'') before_hash),
                 url_pathname =
                   (if (case lowerProto of None \<Rightarrow> False | Some p \<Rightarrow> slashedProtocol p)
                        \<and> has_host \<and> hostname \<noteq> [] \<and> pathname = None
                    then Some ''/'' else pathname)\<rparr>))"

text \<open>
  \<^verbatim>\<open>url.parse\<close> on the strings this development describes: ASCII text without
  \<^verbatim>\<open>@\<close>. (With an \<^verbatim>\<open>@\<close> the parser percent-decodes credentials and may throw a
  \<^verbatim>\<open>URIError\<close>; a host name outside ASCII is converted to Punycode.) On ASCII host
  names the Punycode conversion is the identity.
\<close>

definition in_scope :: "string \<Rightarrow> bool" where
  "in_scope url = (\<not> list_ex digit7 url \<and> CHR ''@'' \<notin> set url)"

definition url_parse :: "string \<Rightarrow> error + url_object" where
  "url_parse url = (if in_scope url then Inr (parse url) else Inl Unmodelled)"

subsection \<open>The builder's state and its collaborators\<close>

text \<open>
  \<^verbatim>\<open>Number.prototype.toString\<close> on an integer: plain decimal digits, with a minus
  sign below zero (JavaScript prints integers of magnitude below \<open>10\<^sup>2\<^sup>1\<close> so).
\<close>

function nat_toString :: "nat \<Rightarrow> string" where
  "nat_toString n =
     (if n < 10 then [''0123456789'' ! n]
      else nat_toString (n div 10) @ [''0123456789'' ! (n mod 10)])"
  by pat_completeness auto
termination
  by (relation "measure id") auto

declare nat_toString.simps [simp del]

definition toString :: "int \<Rightarrow> string" where
  "toString n = (if n < 0 then ''-'' @ nat_toString (nat (- n)) else nat_toString (nat n))"



record child_process =
  pid :: int

text \<open>
  The two private fields of the class, with their initial values:
  \<^verbatim>\<open>computedTestCafeBaseUrl\<close> is declared without initialiser, \<^verbatim>\<open>tscProcess\<close> is
  \<^verbatim>\<open>null\<close>.
\<close>

record builder_state =
  computedTestCafeBaseUrl :: "string option"
  tscProcess :: "child_process option"

definition initial :: builder_state where
  "initial = \<lparr>computedTestCafeBaseUrl = None, tscProcess = None\<rparr>"

text \<open>
  What \<^verbatim>\<open>tree-kill\<close> hands to its callback: nothing, an array, or any other truthy
  value, of which only the \<^verbatim>\<open>message\<close> property is read (\<open>JUndefined\<close> when it
  has none).
\<close>

datatype kill_error =
    NoError
  | ArrayError "js_value list"
  | ObjectError js_value

text \<open>The calls the builder makes to its collaborators, with their arguments.\<close>

datatype call =
    GetBuilderConfiguration target_spec
  | GetBuilderDescription "dev_server_options builder_configuration"
  | ValidateBuilderOptions "dev_server_options builder_configuration" builder_description
  | ArchitectRun "dev_server_options builder_configuration"
  | CreateTestCafe string int int
  | CreateRunner
  | Src string
  | Browsers "string list option"
  | RunnerRun
  | Close
  | TreeKill int string
  | LoggerError js_value

text \<open>
  The collaborators' answers. \<^verbatim>\<open>getBuilderConfiguration\<close> is synchronous and may
  throw. \<^verbatim>\<open>getBuilderDescription\<close> and \<^verbatim>\<open>validateBuilderOptions\<close> return
  observables that deliver one value or fail; \<^verbatim>\<open>architect.run\<close> returns the target's
  event stream. \<^verbatim>\<open>createTestCafe\<close>, \<^verbatim>\<open>createRunner\<close>, \<^verbatim>\<open>src\<close> and
  \<^verbatim>\<open>browsers\<close> succeed (\<open>None\<close>) or throw; \<^verbatim>\<open>runner.run()\<close> resolves with the
  number of failed tests or rejects. \<open>runner_latency\<close> is the number of further
  notifications the dev server's stream delivers while the runner's promise is
  pending. \<^verbatim>\<open>treeKill\<close> calls its callback once, with \<open>treeKill_error\<close>.
\<close>

record world =
  architect_getBuilderConfiguration ::
    "target_spec \<Rightarrow> error + dev_server_options builder_configuration"
  architect_getBuilderDescription ::
    "dev_server_options builder_configuration \<Rightarrow> error + builder_description"
  architect_validateBuilderOptions ::
    "dev_server_options builder_configuration \<Rightarrow> builder_description
       \<Rightarrow> error + dev_server_options builder_configuration"
  architect_run :: "dev_server_options builder_configuration \<Rightarrow> build_event observable"
  testcafe_create :: "string \<Rightarrow> int \<Rightarrow> int \<Rightarrow> error option"
  testcafe_createRunner :: "error option"
  runner_src :: "string \<Rightarrow> error option"
  runner_browsers :: "string list option \<Rightarrow> error option"
  runner_run :: "error + int"
  runner_latency :: nat
  treeKill_error :: "int \<Rightarrow> kill_error"

subsection \<open>\<^verbatim>\<open>initTestCafe\<close>\<close>

text \<open>
  Lines 91 to 114. The promise chain creates the session, creates and configures the
  runner and runs it; a throw or rejection anywhere rejects the promise, and the
  second \<^verbatim>\<open>then\<close>, which closes the session and maps the count, is skipped.
  (\<^verbatim>\<open>close()\<close> itself returns a promise that is not awaited.) The result is the
  promise's outcome, the state, and the calls made.
\<close>

definition initTestCafe ::
  "world \<Rightarrow> string \<Rightarrow> string list option \<Rightarrow> builder_state
     \<Rightarrow> (error + build_event) \<times> builder_state \<times> call list" where
  "initTestCafe w srcPath browsers st =
     (case testcafe_create w ''localhost'' 1337 1338 of
        Some e \<Rightarrow> (Inl e, st, [CreateTestCafe ''localhost'' 1337 1338])
      | None \<Rightarrow>
     (case testcafe_createRunner w of
        Some e \<Rightarrow> (Inl e, st, [CreateTestCafe ''localhost'' 1337 1338, CreateRunner])
      | None \<Rightarrow>
     (case runner_src w srcPath of
        Some e \<Rightarrow> (Inl e, st, [CreateTestCafe ''localhost'' 1337 1338, CreateRunner, Src srcPath])
      | None \<Rightarrow>
     (case runner_browsers w browsers of
        Some e \<Rightarrow>
          (Inl e, st,
           [CreateTestCafe ''localhost'' 1337 1338, CreateRunner, Src srcPath,
            Browsers browsers])
      | None \<Rightarrow>
     (case runner_run w of
        Inl e \<Rightarrow>
          (Inl e, st,
           [CreateTestCafe ''localhost'' 1337 1338, CreateRunner, Src srcPath,
            Browsers browsers, RunnerRun])
      | Inr failedCount \<Rightarrow>
          (Inr \<lparr>success = (failedCount = 0)\<rparr>, st,
           [CreateTestCafe ''localhost'' 1337 1338, CreateRunner, Src srcPath,
            Browsers browsers, RunnerRun, Close]))))))"

subsection \<open>\<^verbatim>\<open>startDevServer\<close>\<close>

text \<open>
  The builder's own test \<^verbatim>\<open>/^\w+:\/\//\<close> of line 147: one or more word characters
  (letters of either case, digits, underscore), then \<^verbatim>\<open>://\<close>.
\<close>

definition is_word_char :: "char \<Rightarrow> bool" where
  "is_word_char c = (is_lower c \<or> is_upper c \<or> is_digit c \<or> c = CHR ''_'')"

definition has_scheme :: "string \<Rightarrow> bool" where
  "has_scheme s =
     (takeWhile is_word_char s \<noteq> [] \<and> take 3 (dropWhile is_word_char s) = ''://'')"

text \<open>
  The body of the \<^verbatim>\<open>tap\<close>, lines 144 to 161, on the validated configuration: the
  URL is stored in \<^verbatim>\<open>computedTestCafeBaseUrl\<close>; nothing is stored when the target
  string is empty.
\<close>

definition computeBaseUrl ::
  "string \<Rightarrow> dev_server_options builder_configuration \<Rightarrow> builder_state
     \<Rightarrow> (error + unit) \<times> builder_state" where
  "computeBaseUrl devServerTarget builderConfig st =
     (if devServerTarget \<noteq> [] \<and> truthy_str (publicHost (options builderConfig)) then
        (let publicHost0 = or_empty (publicHost (options builderConfig));
             publicHost1 =
               (if \<not> has_scheme publicHost0
                then (if ssl (options builderConfig) then ''https'' else ''http'')
                       @ ''://'' @ publicHost0
                else publicHost0)
         in case url_parse publicHost1 of
              Inl e \<Rightarrow> (Inl e, st)
            | Inr clientUrl \<Rightarrow>
                (Inr (), st\<lparr>computedTestCafeBaseUrl := Some (url_format clientUrl)\<rparr>))
      else if devServerTarget \<noteq> [] then
        (Inr (),
         st\<lparr>computedTestCafeBaseUrl :=
              Some (url_format
                (empty_url
                   \<lparr>url_protocol := Some (if ssl (options builderConfig) then ''https'' else ''http''),
                    url_hostname := Some (host (options builderConfig)),
                    url_port := Some (toString (port (options builderConfig)))\<rparr>))\<rparr>)
      else (Inr (), st))"

text \<open>
  Lines 122 to 164, called and subscribed to. A throw of
  \<^verbatim>\<open>getBuilderConfiguration\<close> leaves the method (\<open>Inl\<close>); every later failure is
  the failure of the returned stream. The target is run only with the configuration
  that validation delivered, after the URL has been stored.
\<close>

definition startDevServer ::
  "world \<Rightarrow> string \<Rightarrow> bool \<Rightarrow> builder_state
     \<Rightarrow> (error + build_event observable) \<times> builder_state \<times> call list" where
  "startDevServer w devServerTarget isWatching st =
     (let spec = targetSpec devServerTarget isWatching
      in case architect_getBuilderConfiguration w spec of
           Inl e \<Rightarrow> (Inl e, st, [GetBuilderConfiguration spec])
         | Inr builderConfig \<Rightarrow>
        (case architect_getBuilderDescription w builderConfig of
           Inl e \<Rightarrow>
             (Inr ([], Errors e), st,
              [GetBuilderConfiguration spec, GetBuilderDescription builderConfig])
         | Inr devServerDescription \<Rightarrow>
        (case architect_validateBuilderOptions w builderConfig devServerDescription of
           Inl e \<Rightarrow>
             (Inr ([], Errors e), st,
              [GetBuilderConfiguration spec, GetBuilderDescription builderConfig,
               ValidateBuilderOptions builderConfig devServerDescription])
         | Inr validated \<Rightarrow>
        (case computeBaseUrl devServerTarget validated st of
           (Inl e, st') \<Rightarrow>
             (Inr ([], Errors e), st',
              [GetBuilderConfiguration spec, GetBuilderDescription builderConfig,
               ValidateBuilderOptions builderConfig devServerDescription])
         | (Inr _, st') \<Rightarrow>
             (Inr (architect_run w validated), st',
              [GetBuilderConfiguration spec, GetBuilderDescription builderConfig,
               ValidateBuilderOptions builderConfig devServerDescription,
               ArchitectRun validated])))))"

subsection \<open>\<^verbatim>\<open>run\<close>\<close>

text \<open>
  The constant \<^verbatim>\<open>build\<close> of lines 69 to 71: the dev server's stream when a target
  is named, the single value of \<^verbatim>\<open>of(null)\<close> otherwise. (\<open>nullable\<close> reads the
  dev server's stream at the type of \<^verbatim>\<open>build\<close>, whose values may be \<^verbatim>\<open>null\<close>.)
\<close>

definition nullable ::
  "(error + build_event observable) \<times> builder_state \<times> call list
     \<Rightarrow> (error + build_event option observable) \<times> builder_state \<times> call list" where
  "nullable r =
     (case r of
        (Inl e, st, calls) \<Rightarrow> (Inl e, st, calls)
      | (Inr (events, ending), st, calls) \<Rightarrow> (Inr (map Some events, ending), st, calls))"

definition build ::
  "world \<Rightarrow> test_cafe_builder_options builder_configuration \<Rightarrow> builder_state
     \<Rightarrow> (error + build_event option observable) \<times> builder_state \<times> call list" where
  "build w builderConfig st =
     (if truthy_str (options_devServerTarget (options builderConfig))
      then nullable
             (startDevServer w (or_empty (options_devServerTarget (options builderConfig))) False
                st)
      else (Inr ([None], Completes), st, []))"

text \<open>\<^verbatim>\<open>catchError(error => { throw new Error(error); })\<close> on the end of a stream.\<close>

fun rethrown :: "ending \<Rightarrow> ending" where
  "rethrown (Errors e) = Errors (NewError e)"
| "rethrown Completes = Completes"
| "rethrown StaysOpen = StaysOpen"

text \<open>
  Whether \<^verbatim>\<open>build\<close> fails while the runner's promise is pending: it ends in an
  error, and that error is among the notifications delivered before the promise
  settles.
\<close>

definition fails_meanwhile :: "nat \<Rightarrow> 'a list \<Rightarrow> ending \<Rightarrow> bool" where
  "fails_meanwhile latency later ending =
     (case ending of Errors e \<Rightarrow> length later < latency | _ \<Rightarrow> False)"

text \<open>
  Lines 64 to 80, called and subscribed to. \<^verbatim>\<open>concatMap\<close> starts \<^verbatim>\<open>initTestCafe\<close>
  on the first value of \<^verbatim>\<open>build\<close>; \<^verbatim>\<open>take(1)\<close> ends the stream with the first
  event that comes out, so no later value of \<^verbatim>\<open>build\<close> starts a second session. A
  failure of \<^verbatim>\<open>build\<close> is passed on at once, also while the runner's promise is
  pending (the promise chain is not cancelled: its calls are still made). Every
  failure leaves through \<^verbatim>\<open>catchError\<close>.
\<close>

definition run ::
  "world \<Rightarrow> test_cafe_builder_options builder_configuration \<Rightarrow> builder_state
     \<Rightarrow> (error + build_event observable) \<times> builder_state \<times> call list" where
  "run w builderConfig st =
     (case build w builderConfig st of
        (Inl e, st1, calls1) \<Rightarrow> (Inl e, st1, calls1)
      | (Inr ([], ending), st1, calls1) \<Rightarrow> (Inr ([], rethrown ending), st1, calls1)
      | (Inr (v # later, ending), st1, calls1) \<Rightarrow>
          (case initTestCafe w (root builderConfig) (options_browsers (options builderConfig))
                  st1 of
             (outcome, st2, calls2) \<Rightarrow>
               (Inr (if fails_meanwhile (runner_latency w) later ending
                     then ([], rethrown ending)
                     else (case outcome of
                             Inl e \<Rightarrow> ([], Errors (NewError e))
                           | Inr event \<Rightarrow> ([event], Completes))),
                st2, calls1 @ calls2)))"

text \<open>The state after a series of runs of one builder instance.\<close>

fun runs ::
  "(world \<times> test_cafe_builder_options builder_configuration) list \<Rightarrow> builder_state
     \<Rightarrow> builder_state" where
  "runs [] st = st"
| "runs ((w, builderConfig) # rest) st = runs rest (fst (snd (run w builderConfig st)))"

subsection \<open>\<^verbatim>\<open>killProcess\<close>\<close>

text \<open>\<^verbatim>\<open>error[i]\<close> on an array.\<close>

definition element :: "js_value list \<Rightarrow> nat \<Rightarrow> js_value" where
  "element xs i = (case index xs i of None \<Rightarrow> JUndefined | Some v \<Rightarrow> v)"

text \<open>
  Lines 166 to 178. Reading \<^verbatim>\<open>this.tscProcess.pid\<close> throws when the handle is
  \<^verbatim>\<open>null\<close>, before \<^verbatim>\<open>treeKill\<close> is called. Otherwise the signal is sent and the
  callback clears the handle and logs the message of an error it recognises.
\<close>

definition killProcess ::
  "world \<Rightarrow> builder_state \<Rightarrow> (error + unit) \<times> builder_state \<times> call list" where
  "killProcess w st =
     (case tscProcess st of
        None \<Rightarrow> (Inl TypeError, st, [])
      | Some p \<Rightarrow>
          (Inr (), st\<lparr>tscProcess := None\<rparr>,
           TreeKill (pid p) ''SIGTERM'' #
           (case treeKill_error w (pid p) of
              NoError \<Rightarrow> []
            | ArrayError xs \<Rightarrow>
                if truthy (element xs 0) \<and> truthy (element xs 2)
                then [LoggerError (element xs 2)] else []
            | ObjectError message \<Rightarrow>
                if truthy message then [LoggerError message] else [])))"

subsection \<open>Kinds of calls\<close>

text \<open>The calls to the architect and the calls to TestCafe.\<close>

definition is_architect_call :: "call \<Rightarrow> bool" where
  "is_architect_call c =
     (case c of
        GetBuilderConfiguration _ \<Rightarrow> True
      | GetBuilderDescription _ \<Rightarrow> True
      | ValidateBuilderOptions _ _ \<Rightarrow> True
      | ArchitectRun _ \<Rightarrow> True
      | _ \<Rightarrow> False)"

definition is_testcafe_call :: "call \<Rightarrow> bool" where
  "is_testcafe_call c =
     (case c of
        CreateTestCafe _ _ _ \<Rightarrow> True
      | CreateRunner \<Rightarrow> True
      | Src _ \<Rightarrow> True
      | Browsers _ \<Rightarrow> True
      | RunnerRun \<Rightarrow> True
      | Close \<Rightarrow> True
      | _ \<Rightarrow> False)"


subsection \<open>A sample project\<close>

text \<open>
  A workspace in which everything succeeds: the project \<^verbatim>\<open>app\<close> is served on
  \<^verbatim>\<open>0.0.0.0:4200\<close> without TLS, the architect applies the overrides it is given
  and validation returns the configuration unchanged, the dev server reports one
  build and stays up, and the runner reports no failed test. The test project is
  the \<^verbatim>\<open>production\<close> configuration of the example in the class comment.
\<close>

definition sample_config :: "dev_server_options builder_configuration" where
  "sample_config =
     \<lparr>root = ''apps/app'', builder = ''@angular-devkit/build-angular:dev-server'',
      options =
        \<lparr>host = ''0.0.0.0'', port = 4200, ssl = False, publicHost = None, watch = True\<rparr>\<rparr>"

definition sample_world :: world where
  "sample_world =
     \<lparr>architect_getBuilderConfiguration =
        (\<lambda>spec. Inr (sample_config
           \<lparr>options := (options sample_config)\<lparr>watch := ov_watch (overrides spec)\<rparr>\<rparr>)),
      architect_getBuilderDescription = (\<lambda>c. Inr (BuilderDescription ''dev-server'')),
      architect_validateBuilderOptions = (\<lambda>c d. Inr c),
      architect_run = (\<lambda>c. ([\<lparr>success = True\<rparr>], StaysOpen)),
      testcafe_create = (\<lambda>h p q. None),
      testcafe_createRunner = None,
      runner_src = (\<lambda>p. None),
      runner_browsers = (\<lambda>b. None),
      runner_run = Inr 0,
      runner_latency = 0,
      treeKill_error = (\<lambda>p. NoError)\<rparr>"

definition sample_e2e :: "test_cafe_builder_options builder_configuration" where
  "sample_e2e =
     \<lparr>root = ''apps/app-e2e'', builder = ''@nrwl/builders:test-cafe'',
      options =
        \<lparr>options_browsers = Some [''chrome''],
         options_devServerTarget = Some ''app:serve:production''\<rparr>\<rparr>"

section \<open>Properties\<close>

subsection \<open>What the methods do to the state and which calls they make\<close>

lemma initTestCafe_state: "fst (snd (initTestCafe w srcPath browsers st)) = st"
  by (simp add: initTestCafe_def split: option.splits sum.splits)

lemma initTestCafe_calls:
  "snd (snd (initTestCafe w srcPath browsers st))
     \<in> (\<lambda>n. take n [CreateTestCafe ''localhost'' 1337 1338, CreateRunner, Src srcPath,
                     Browsers browsers, RunnerRun, Close]) ` {1, 2, 3, 4, 5, 6}"
  by (simp add: initTestCafe_def split: option.splits sum.splits)

lemma initTestCafe_testcafe_calls:
  "c \<in> set (snd (snd (initTestCafe w srcPath browsers st))) \<Longrightarrow> is_testcafe_call c"
  using initTestCafe_calls [of w srcPath browsers st]
  by (auto simp add: is_testcafe_call_def dest!: in_set_takeD)

lemma computeBaseUrl_tscProcess:
  "tscProcess (snd (computeBaseUrl devServerTarget builderConfig st)) = tscProcess st"
  by (simp add: computeBaseUrl_def Let_def split: sum.splits)

lemma startDevServer_tscProcess:
  "tscProcess (fst (snd (startDevServer w devServerTarget isWatching st))) = tscProcess st"
proof -
  have "tscProcess st' = tscProcess st"
    if "computeBaseUrl devServerTarget c st = (r, st')" for c r st'
    using computeBaseUrl_tscProcess [of devServerTarget c st] that by simp
  then show ?thesis
    by (auto simp add: startDevServer_def Let_def split: sum.splits prod.splits)
qed

lemma startDevServer_architect_calls:
  "c \<in> set (snd (snd (startDevServer w devServerTarget isWatching st))) \<Longrightarrow> is_architect_call c"
  by (auto simp add: startDevServer_def is_architect_call_def Let_def
      split: sum.splits prod.splits)

lemma nullable_snd: "snd (nullable r) = snd r"
  by (simp add: nullable_def split: prod.splits sum.splits)

lemma build_tscProcess: "tscProcess (fst (snd (build w builderConfig st))) = tscProcess st"
  by (simp add: build_def nullable_snd startDevServer_tscProcess)

lemma build_calls:
  "snd (snd (build w builderConfig st)) =
     (if truthy_str (options_devServerTarget (options builderConfig))
      then snd (snd (startDevServer w
             (or_empty (options_devServerTarget (options builderConfig))) False st))
      else [])"
  by (simp add: build_def nullable_snd)

lemma build_cases:
  obtains e st1 calls1 where "build w builderConfig st = (Inl e, st1, calls1)"
  | ending st1 calls1 where "build w builderConfig st = (Inr ([], ending), st1, calls1)"
  | v later ending st1 calls1 where
      "build w builderConfig st = (Inr (v # later, ending), st1, calls1)"
proof (cases "build w builderConfig st")
  case (fields r st1 calls1)
  then show ?thesis
  proof (cases r)
    case (Inl e)
    with fields show ?thesis using that(1) by simp
  next
    case (Inr obs)
    then show ?thesis
    proof (cases obs)
      case (Pair events ending)
      with Inr fields show ?thesis using that(2,3) by (cases events) simp_all
    qed
  qed
qed

lemma run_throws:
  "build w builderConfig st = (Inl e, st1, calls1)
     \<Longrightarrow> run w builderConfig st = (Inl e, st1, calls1)"
  by (simp add: run_def)

lemma run_no_value:
  "build w builderConfig st = (Inr ([], ending), st1, calls1)
     \<Longrightarrow> run w builderConfig st = (Inr ([], rethrown ending), st1, calls1)"
  by (simp add: run_def)

lemma run_first_value:
  "build w builderConfig st = (Inr (v # later, ending), st1, calls1)
     \<Longrightarrow> initTestCafe w (root builderConfig) (options_browsers (options builderConfig)) st1
           = (outcome, st2, calls2)
     \<Longrightarrow> run w builderConfig st =
           (Inr (if fails_meanwhile (runner_latency w) later ending then ([], rethrown ending)
                 else (case outcome of
                         Inl e \<Rightarrow> ([], Errors (NewError e))
                       | Inr event \<Rightarrow> ([event], Completes))),
            st1, calls1 @ calls2)"
  using initTestCafe_state [of w "root builderConfig" "options_browsers (options builderConfig)" st1]
  by (simp add: run_def)

lemma run_state: "fst (snd (run w builderConfig st)) = fst (snd (build w builderConfig st))"
proof (cases rule: build_cases [of w builderConfig st])
  case 1 then show ?thesis by (simp add: run_throws)
next
  case 2 then show ?thesis by (simp add: run_no_value)
next
  case (3 v later ending st1 calls1)
  then show ?thesis
    by (cases "initTestCafe w (root builderConfig) (options_browsers (options builderConfig)) st1")
       (simp add: run_first_value)
qed

lemma run_tscProcess: "tscProcess (fst (snd (run w builderConfig st))) = tscProcess st"
  by (simp add: run_state build_tscProcess)

lemma runs_tscProcess: "tscProcess (runs ops st) = tscProcess st"
  by (induction ops st rule: runs.induct) (simp_all add: run_tscProcess)

lemma run_calls:
  "snd (snd (run w builderConfig st)) = snd (snd (build w builderConfig st))
 \<or> snd (snd (run w builderConfig st)) =
      snd (snd (build w builderConfig st))
      @ snd (snd (initTestCafe w (root builderConfig) (options_browsers (options builderConfig))
                    (fst (snd (build w builderConfig st)))))"
proof (cases rule: build_cases [of w builderConfig st])
  case 1 then show ?thesis by (simp add: run_throws)
next
  case 2 then show ?thesis by (simp add: run_no_value)
next
  case (3 v later ending st1 calls1)
  then show ?thesis
    by (cases "initTestCafe w (root builderConfig) (options_browsers (options builderConfig)) st1")
       (simp add: run_first_value)
qed

lemma run_call_kinds:
  assumes "c \<in> set (snd (snd (run w builderConfig st)))"
  shows "is_architect_call c \<or> is_testcafe_call c"
proof -
  have "c \<in> set (snd (snd (build w builderConfig st)))
      \<or> c \<in> set (snd (snd (initTestCafe w (root builderConfig)
                  (options_browsers (options builderConfig))
                  (fst (snd (build w builderConfig st))))))"
    using assms run_calls [of w builderConfig st] by auto
  then show ?thesis
    by (auto simp add: build_calls dest: startDevServer_architect_calls
        initTestCafe_testcafe_calls split: if_splits)
qed


lemma startDevServer_invalid:
  assumes "architect_getBuilderConfiguration w (targetSpec devServerTarget isWatching) = Inr bc"
    and "architect_getBuilderDescription w bc = Inr d"
    and "architect_validateBuilderOptions w bc d = Inl e"
  shows "startDevServer w devServerTarget isWatching st =
           (Inr ([], Errors e), st,
            [GetBuilderConfiguration (targetSpec devServerTarget isWatching),
             GetBuilderDescription bc, ValidateBuilderOptions bc d])"
  using assms by (simp add: startDevServer_def)

lemma startDevServer_run_validated:
  assumes "ArchitectRun c \<in> set (snd (snd (startDevServer w devServerTarget isWatching st)))"
  shows "\<exists>bc d.
           architect_getBuilderConfiguration w (targetSpec devServerTarget isWatching) = Inr bc
         \<and> architect_getBuilderDescription w bc = Inr d
         \<and> architect_validateBuilderOptions w bc d = Inr c
         \<and> snd (snd (startDevServer w devServerTarget isWatching st)) =
             [GetBuilderConfiguration (targetSpec devServerTarget isWatching),
              GetBuilderDescription bc, ValidateBuilderOptions bc d, ArchitectRun c]"
  using assms
  by (auto simp add: startDevServer_def Let_def split: sum.splits prod.splits)





lemma run_architect_run:
  assumes "ArchitectRun c \<in> set (snd (snd (run w builderConfig st)))"
  shows "truthy_str (options_devServerTarget (options builderConfig))
       \<and> ArchitectRun c \<in> set (snd (snd (startDevServer w
             (or_empty (options_devServerTarget (options builderConfig))) False st)))"
proof -
  have "\<not> is_testcafe_call (ArchitectRun c)" by (simp add: is_testcafe_call_def)
  then have "ArchitectRun c \<notin> set (snd (snd (initTestCafe w (root builderConfig)
                  (options_browsers (options builderConfig))
                  (fst (snd (build w builderConfig st))))))"
    using initTestCafe_testcafe_calls by blast
  then have "ArchitectRun c \<in> set (snd (snd (build w builderConfig st)))"
    using assms run_calls [of w builderConfig st] by auto
  then show ?thesis by (simp add: build_calls split: if_splits)
qed

lemma run_sample:
  "run sample_world sample_e2e initial =
     (Inr ([\<lparr>success = True\<rparr>], Completes),
      \<lparr>computedTestCafeBaseUrl = Some ''http://0.0.0.0:4200'', tscProcess = None\<rparr>,
      [GetBuilderConfiguration (targetSpec ''app:serve:production'' False),
       GetBuilderDescription
         (sample_config\<lparr>options := (options sample_config)\<lparr>watch := False\<rparr>\<rparr>),
       ValidateBuilderOptions
         (sample_config\<lparr>options := (options sample_config)\<lparr>watch := False\<rparr>\<rparr>)
         (BuilderDescription ''dev-server''),
       ArchitectRun (sample_config\<lparr>options := (options sample_config)\<lparr>watch := False\<rparr>\<rparr>),
       CreateTestCafe ''localhost'' 1337 1338, CreateRunner, Src ''apps/app-e2e'',
       Browsers (Some [''chrome'']), RunnerRun, Close])"
  by code_simp





subsection \<open>Splitting a target specification\<close>

lemma split_no_sep: "sep \<notin> set p \<Longrightarrow> split sep p = [p]"
  by (induction p) auto

lemma split_append_sep:
  "sep \<notin> set p \<Longrightarrow> split sep (p @ sep # rest) = p # split sep rest"
  by (induction p) auto

text \<open>
  Claim C10. For colon-free segments \<open>p\<close>, \<open>t\<close> and \<open>c\<close>, the target string
  \<open>p:t:c\<close> is split into project \<open>p\<close>, target \<open>t\<close> and configuration \<open>c\<close>, and the
  target string \<open>p:t\<close> into project \<open>p\<close> and target \<open>t\<close> with the configuration
  undefined. The watch override is the flag handed to \<^verbatim>\<open>startDevServer\<close>.
\<close>

theorem targetSpec_split:
  assumes "CHR '':'' \<notin> set p" and "CHR '':'' \<notin> set t" and "CHR '':'' \<notin> set c"
  shows "targetSpec (p @ '':'' @ t @ '':'' @ c) w =
           \<lparr>project = Some p, target = Some t, configuration = Some c,
            overrides = \<lparr>ov_watch = w\<rparr>\<rparr>
       \<and> targetSpec (p @ '':'' @ t) w =
           \<lparr>project = Some p, target = Some t, configuration = None,
            overrides = \<lparr>ov_watch = w\<rparr>\<rparr>"
  using assms by (simp add: targetSpec_def split_append_sep split_no_sep numeral_2_eq_2)

theorem targetSpec_split_witness:
  "CHR '':'' \<notin> set ''app'' \<and> CHR '':'' \<notin> set ''serve'' \<and> CHR '':'' \<notin> set ''production''
 \<and> targetSpec ''app:serve:production'' False =
     \<lparr>project = Some ''app'', target = Some ''serve'', configuration = Some ''production'',
      overrides = \<lparr>ov_watch = False\<rparr>\<rparr>
 \<and> targetSpec ''app:serve'' False =
     \<lparr>project = Some ''app'', target = Some ''serve'', configuration = None,
      overrides = \<lparr>ov_watch = False\<rparr>\<rparr>"
  using targetSpec_split [of "''app''" "''serve''" "''production''" False] by simp

subsection \<open>The runner's count and the outcome\<close>

text \<open>
  Claim C9. Whatever integer the runner resolves with, the event of the invocation
  has \<open>success\<close> exactly when that integer is \<open>0\<close>: a positive and a negative count
  both give \<open>success = False\<close>.
\<close>

theorem initTestCafe_success:
  assumes "testcafe_create w ''localhost'' 1337 1338 = None"
    and "testcafe_createRunner w = None"
    and "runner_src w srcPath = None"
    and "runner_browsers w browsers = None"
    and "runner_run w = Inr failedCount"
  shows "fst (initTestCafe w srcPath browsers st) = Inr \<lparr>success = (failedCount = 0)\<rparr>"
  using assms by (simp add: initTestCafe_def)

theorem initTestCafe_success_witness:
  "testcafe_create sample_world ''localhost'' 1337 1338 = None
 \<and> testcafe_createRunner sample_world = None
 \<and> runner_src sample_world ''e2e'' = None
 \<and> runner_browsers sample_world None = None
 \<and> runner_run sample_world = Inr 0
 \<and> fst (initTestCafe sample_world ''e2e'' None initial) = Inr \<lparr>success = True\<rparr>
 \<and> fst (initTestCafe (sample_world\<lparr>runner_run := Inr 5\<rparr>) ''e2e'' None initial)
       = Inr \<lparr>success = False\<rparr>
 \<and> fst (initTestCafe (sample_world\<lparr>runner_run := Inr (- 1)\<rparr>) ''e2e'' None initial)
       = Inr \<lparr>success = False\<rparr>"
  using initTestCafe_success [of sample_world "''e2e''" None 0 initial]
    initTestCafe_success [of "sample_world\<lparr>runner_run := Inr 5\<rparr>" "''e2e''" None 5 initial]
    initTestCafe_success
      [of "sample_world\<lparr>runner_run := Inr (- 1)\<rparr>" "''e2e''" None "- 1" initial]
  by (simp add: sample_world_def)

subsection \<open>Closing the session\<close>




subsection \<open>Terminating the child process\<close>




subsection \<open>The process handle stays \<^verbatim>\<open>null\<close>\<close>

text \<open>
  Claim C4. The handle is \<^verbatim>\<open>null\<close> in a new builder; \<^verbatim>\<open>run\<close>, \<^verbatim>\<open>initTestCafe\<close>
  and \<^verbatim>\<open>startDevServer\<close> leave it as it was; no call of \<^verbatim>\<open>run\<close> reaches
  \<^verbatim>\<open>treeKill\<close> or the logger, the only things \<^verbatim>\<open>killProcess\<close> calls; so after
  any series of runs the handle is still \<^verbatim>\<open>null\<close> and a call of
  \<^verbatim>\<open>killProcess\<close> fails reading the process id of \<^verbatim>\<open>null\<close>.
\<close>

theorem tscProcess_stays_null:
  "tscProcess initial = None
 \<and> tscProcess (fst (snd (run w builderConfig st))) = tscProcess st
 \<and> tscProcess (fst (snd (initTestCafe w srcPath browsers st))) = tscProcess st
 \<and> tscProcess (fst (snd (startDevServer w devServerTarget isWatching st))) = tscProcess st
 \<and> TreeKill p signal \<notin> set (snd (snd (run w builderConfig st)))
 \<and> LoggerError message \<notin> set (snd (snd (run w builderConfig st)))
 \<and> tscProcess (runs ops initial) = None
 \<and> killProcess w' (runs ops initial) = (Inl TypeError, runs ops initial, [])"
proof -
  have "TreeKill p signal \<notin> set (snd (snd (run w builderConfig st)))"
    using run_call_kinds [of "TreeKill p signal" w builderConfig st]
    by (auto simp add: is_architect_call_def is_testcafe_call_def)
  moreover have "LoggerError message \<notin> set (snd (snd (run w builderConfig st)))"
    using run_call_kinds [of "LoggerError message" w builderConfig st]
    by (auto simp add: is_architect_call_def is_testcafe_call_def)
  moreover have null: "tscProcess (runs ops initial) = None"
    by (simp add: runs_tscProcess initial_def)
  moreover have "killProcess w' (runs ops initial) = (Inl TypeError, runs ops initial, [])"
    using null by (simp add: killProcess_def)
  ultimately show ?thesis
    by (simp add: run_tscProcess initTestCafe_state startDevServer_tscProcess initial_def)
qed

theorem tscProcess_stays_null_witness:
  "tscProcess (runs [(sample_world, sample_e2e), (sample_world, sample_e2e)] initial) = None
 \<and> killProcess sample_world (runs [(sample_world, sample_e2e), (sample_world, sample_e2e)] initial)
     = (Inl TypeError, runs [(sample_world, sample_e2e), (sample_world, sample_e2e)] initial, [])"
  using tscProcess_stays_null
    [of sample_world sample_e2e initial "''apps/app-e2e''" None "''app:serve''" False 0
        "''SIGTERM''" JUndefined "[(sample_world, sample_e2e), (sample_world, sample_e2e)]"
        sample_world]
  by simp

subsection \<open>The base URL\<close>




















subsection \<open>Validation comes before the run of the target\<close>

text \<open>
  Claim C8. In a run with a dev-server target, the target is run only with a
  configuration that \<^verbatim>\<open>validateBuilderOptions\<close> delivered, and the call that
  validated it is the call just before; when validation fails, the run ends with
  that error, and neither the target nor the TestCafe session is started.
\<close>

theorem validate_before_run:
  assumes "truthy_str (options_devServerTarget (options builderConfig))"
    and "spec = targetSpec (or_empty (options_devServerTarget (options builderConfig))) False"
  shows "(\<forall>c. ArchitectRun c \<in> set (snd (snd (run w builderConfig st))) \<longrightarrow>
            (\<exists>bc d later.
               architect_validateBuilderOptions w bc d = Inr c
             \<and> snd (snd (run w builderConfig st)) =
                 [GetBuilderConfiguration spec, GetBuilderDescription bc,
                  ValidateBuilderOptions bc d, ArchitectRun c] @ later))
       \<and> (\<forall>bc d e.
            architect_getBuilderConfiguration w spec = Inr bc
          \<and> architect_getBuilderDescription w bc = Inr d
          \<and> architect_validateBuilderOptions w bc d = Inl e \<longrightarrow>
            run w builderConfig st =
              (Inr ([], Errors (NewError e)), st,
               [GetBuilderConfiguration spec, GetBuilderDescription bc,
                ValidateBuilderOptions bc d]))"
proof (intro conjI allI impI)
  fix c
  assume "ArchitectRun c \<in> set (snd (snd (run w builderConfig st)))"
  then have "ArchitectRun c \<in> set (snd (snd (startDevServer w
             (or_empty (options_devServerTarget (options builderConfig))) False st)))"
    using run_architect_run by blast
  then obtain bc d where valid: "architect_validateBuilderOptions w bc d = Inr c"
    and calls: "snd (snd (startDevServer w
             (or_empty (options_devServerTarget (options builderConfig))) False st)) =
             [GetBuilderConfiguration spec, GetBuilderDescription bc,
              ValidateBuilderOptions bc d, ArchitectRun c]"
    using startDevServer_run_validated assms(2) by blast
  from calls assms(1) have "snd (snd (build w builderConfig st)) =
      [GetBuilderConfiguration spec, GetBuilderDescription bc,
       ValidateBuilderOptions bc d, ArchitectRun c]"
    by (simp add: build_calls)
  then have "\<exists>later. snd (snd (run w builderConfig st)) =
      [GetBuilderConfiguration spec, GetBuilderDescription bc,
       ValidateBuilderOptions bc d, ArchitectRun c] @ later"
    using run_calls [of w builderConfig st] by auto
  with valid show "\<exists>bc d later.
               architect_validateBuilderOptions w bc d = Inr c
             \<and> snd (snd (run w builderConfig st)) =
                 [GetBuilderConfiguration spec, GetBuilderDescription bc,
                  ValidateBuilderOptions bc d, ArchitectRun c] @ later"
    by blast
next
  fix bc d e
  assume "architect_getBuilderConfiguration w spec = Inr bc
          \<and> architect_getBuilderDescription w bc = Inr d
          \<and> architect_validateBuilderOptions w bc d = Inl e"
  then have "startDevServer w (or_empty (options_devServerTarget (options builderConfig))) False st
      = (Inr ([], Errors e), st,
         [GetBuilderConfiguration spec, GetBuilderDescription bc, ValidateBuilderOptions bc d])"
    using startDevServer_invalid assms(2) by simp
  then have "build w builderConfig st
      = (Inr ([], Errors e), st,
         [GetBuilderConfiguration spec, GetBuilderDescription bc, ValidateBuilderOptions bc d])"
    using assms(1) by (simp add: build_def nullable_def)
  then show "run w builderConfig st =
              (Inr ([], Errors (NewError e)), st,
               [GetBuilderConfiguration spec, GetBuilderDescription bc,
                ValidateBuilderOptions bc d])"
    by (simp add: run_no_value)
qed


theorem validate_before_run_witness:
  "truthy_str (options_devServerTarget (options sample_e2e))
 \<and> ArchitectRun (sample_config\<lparr>options := (options sample_config)\<lparr>watch := False\<rparr>\<rparr>)
     \<in> set (snd (snd (run sample_world sample_e2e initial)))
 \<and> architect_validateBuilderOptions sample_world
       (sample_config\<lparr>options := (options sample_config)\<lparr>watch := False\<rparr>\<rparr>)
       (BuilderDescription ''dev-server'')
     = Inr (sample_config\<lparr>options := (options sample_config)\<lparr>watch := False\<rparr>\<rparr>)
 \<and> take 4 (snd (snd (run sample_world sample_e2e initial))) =
      [GetBuilderConfiguration (targetSpec ''app:serve:production'' False),
       GetBuilderDescription
         (sample_config\<lparr>options := (options sample_config)\<lparr>watch := False\<rparr>\<rparr>),
       ValidateBuilderOptions
         (sample_config\<lparr>options := (options sample_config)\<lparr>watch := False\<rparr>\<rparr>)
         (BuilderDescription ''dev-server''),
       ArchitectRun (sample_config\<lparr>options := (options sample_config)\<lparr>watch := False\<rparr>\<rparr>)]
 \<and> run (sample_world\<lparr>architect_validateBuilderOptions := (\<lambda>c d. Inl (Failure ''schema''))\<rparr>)
       sample_e2e initial =
     (Inr ([], Errors (NewError (Failure ''schema''))), initial,
      [GetBuilderConfiguration (targetSpec ''app:serve:production'' False),
       GetBuilderDescription
         (sample_config\<lparr>options := (options sample_config)\<lparr>watch := False\<rparr>\<rparr>),
       ValidateBuilderOptions
         (sample_config\<lparr>options := (options sample_config)\<lparr>watch := False\<rparr>\<rparr>)
         (BuilderDescription ''dev-server'')])"
proof -
  let ?invalid =
    "sample_world\<lparr>architect_validateBuilderOptions := (\<lambda>c d. Inl (Failure ''schema''))\<rparr>"
  let ?bc = "sample_config\<lparr>options := (options sample_config)\<lparr>watch := False\<rparr>\<rparr>"
  have target: "truthy_str (options_devServerTarget (options sample_e2e))"
    by (simp add: sample_e2e_def)
  have spec: "targetSpec ''app:serve:production'' False =
      targetSpec (or_empty (options_devServerTarget (options sample_e2e))) False"
    by (simp add: sample_e2e_def)
  have resolved: "architect_getBuilderConfiguration ?invalid
        (targetSpec ''app:serve:production'' False) = Inr ?bc
      \<and> architect_getBuilderDescription ?invalid ?bc = Inr (BuilderDescription ''dev-server'')
      \<and> architect_validateBuilderOptions ?invalid ?bc (BuilderDescription ''dev-server'')
          = Inl (Failure ''schema'')"
    by (simp add: sample_world_def targetSpec_def)
  have "run ?invalid sample_e2e initial =
     (Inr ([], Errors (NewError (Failure ''schema''))), initial,
      [GetBuilderConfiguration (targetSpec ''app:serve:production'' False),
       GetBuilderDescription ?bc, ValidateBuilderOptions ?bc (BuilderDescription ''dev-server'')])"
    using validate_before_run [OF target spec, of ?invalid initial] resolved by blast
  moreover have "ArchitectRun ?bc \<in> set (snd (snd (run sample_world sample_e2e initial)))"
    by (simp add: run_sample)
  moreover have "architect_validateBuilderOptions sample_world ?bc
      (BuilderDescription ''dev-server'') = Inr ?bc"
    by (simp add: sample_world_def)
  moreover have "take 4 (snd (snd (run sample_world sample_e2e initial))) =
      [GetBuilderConfiguration (targetSpec ''app:serve:production'' False),
       GetBuilderDescription ?bc, ValidateBuilderOptions ?bc (BuilderDescription ''dev-server''),
       ArchitectRun ?bc]"
    by (simp add: run_sample)
  ultimately show ?thesis
    using target by blast
qed

subsection \<open>One run of the dev server, at most one event\<close>





subsection \<open>What the TestCafe session is given\<close>




end
